theory Spec2Isabelle
  imports Main
begin

section \<open>Data model of Field3DFile.h\<close>

text \<open>
  \<^verbatim>\<open>File::Layer\<close>: the name of a layer and the name of the partition that holds it.
\<close>

record Layer =
  name :: string
  parent :: string

text \<open>
  \<^verbatim>\<open>File::Partition\<close>: a name, one mapping and the two private layer vectors.
  The mapping type is a parameter; HOL equality on it stands for the value comparison of
  two mappings.
\<close>

record 'm Partition =
  name :: string
  mapping :: 'm
  m_scalarLayers :: "Layer list"
  m_vectorLayers :: "Layer list"

text \<open>\<^verbatim>\<open>Field3DFileBase::LayerInfo\<close>.\<close>

record LayerInfo =
  name :: string
  parentName :: string
  components :: int

text \<open>
  The data members of \<^verbatim>\<open>Field3DFileBase\<close>. The two \<^verbatim>\<open>std::map\<close> members are
  partial functions. A counter of \<^verbatim>\<open>m_partitionCount\<close> is a \<^verbatim>\<open>nat\<close>: it counts
  partitions and is never negative (the C++ \<^verbatim>\<open>int\<close> would need 2^31 partitions of one
  name to overflow).
\<close>

record 'm Field3DFileBase =
  m_layerInfo :: "LayerInfo list"
  m_partitions :: "'m Partition list"
  m_partitionNames :: "string list"
  m_partitionCount :: "string \<rightharpoonup> nat"
  m_groupMembership :: "string \<rightharpoonup> string"

text \<open>
  \<^verbatim>\<open>Field3DInputFile\<close> and \<^verbatim>\<open>Field3DOutputFile\<close> extend the base class by the file
  name and the archive handles. A \<^verbatim>\<open>boost::shared_ptr\<close> is an option: \<open>None\<close> is the
  empty pointer of a file that is not open. The archive types of Ogawa are parameters.
\<close>

record ('m, 'ia) Field3DInputFile = "'m Field3DFileBase" +
  m_filename :: string
  m_iarchive :: "'ia option"

record ('m, 'oa, 'og) Field3DOutputFile = "'m Field3DFileBase" +
  m_archive :: "'oa option"
  m_root :: "'og option"

text \<open>
  Modelled from the spec: \<^verbatim>\<open>Field.h\<close> is not among the sources. A field value object
  carries the two strings that \<^verbatim>\<open>writeLayer(layer)\<close> passes on (\<^verbatim>\<open>layer->name\<close>,
  \<^verbatim>\<open>layer->attribute\<close>), its spatial mapping and its payload. A
  \<^verbatim>\<open>Field<Data_T>::Ptr\<close> is an option of it: \<open>None\<close> is the null pointer.
\<close>

record ('m, 'd) Field =
  name :: string
  attribute :: string
  mapping :: 'm
  data :: 'd

section \<open>Partition: adding and finding layers\<close>

text \<open>
  The member functions of \<^verbatim>\<open>File::Partition\<close> are declared in the header and defined in
  a file that is not among the sources; each is modelled from the spec.
\<close>

text \<open>
  Modelled from the spec: the body of \<^verbatim>\<open>Partition::addScalarLayer\<close> is missing. The
  spec: append-only, append order preserved, no overwrite of a same-named layer
  (duplicates are retained).
\<close>

definition addScalarLayer :: "'m Partition \<Rightarrow> Layer \<Rightarrow> 'm Partition" where
  "addScalarLayer p layer = p\<lparr>m_scalarLayers := m_scalarLayers p @ [layer]\<rparr>"

text \<open>
  Modelled from the spec: the body of \<^verbatim>\<open>Partition::addVectorLayer\<close> is missing. The
  spec: as for scalar layers, on the list of vector layers.
\<close>

definition addVectorLayer :: "'m Partition \<Rightarrow> Layer \<Rightarrow> 'm Partition" where
  "addVectorLayer p layer = p\<lparr>m_vectorLayers := m_vectorLayers p @ [layer]\<rparr>"

text \<open>
  Modelled from the spec: the body of \<^verbatim>\<open>Partition::scalarLayer\<close> is missing. The spec:
  it returns the first matching Layer Record in insertion order; the null pointer of a
  failed search is \<open>None\<close>.
\<close>

definition scalarLayer :: "'m Partition \<Rightarrow> string \<Rightarrow> Layer option" where
  "scalarLayer p n = find (\<lambda>l. Layer.name l = n) (m_scalarLayers p)"

text \<open>
  Modelled from the spec: the body of \<^verbatim>\<open>Partition::vectorLayer\<close> is missing. The spec:
  the first matching Layer Record of the vector layers, in insertion order.
\<close>

definition vectorLayer :: "'m Partition \<Rightarrow> string \<Rightarrow> Layer option" where
  "vectorLayer p n = find (\<lambda>l. Layer.name l = n) (m_vectorLayers p)"

text \<open>
  Modelled from the spec: the body of \<^verbatim>\<open>Partition::getScalarLayerNames\<close> is missing. The
  spec: a name listing that preserves insertion order.
\<close>

definition getScalarLayerNames :: "'m Partition \<Rightarrow> string list" where
  "getScalarLayerNames p = map Layer.name (m_scalarLayers p)"

text \<open>
  Modelled from the spec: the body of \<^verbatim>\<open>Partition::getVectorLayerNames\<close> is missing. The
  spec: a name listing that preserves insertion order.
\<close>

definition getVectorLayerNames :: "'m Partition \<Rightarrow> string list" where
  "getVectorLayerNames p = map Layer.name (m_vectorLayers p)"

section \<open>Field3DOutputFile::writeLayer\<close>

text \<open>
  The three-argument \<^verbatim>\<open>writeLayer\<close> as the header implements it: the null check, the
  check that the archive is open, and \<^verbatim>\<open>return true\<close>. The call of
  \<^verbatim>\<open>intPartitionName\<close> is commented out in the source and nothing else follows. The
  result is the returned flag, the warnings handed to \<^verbatim>\<open>Msg::print\<close> and the file
  object after the call.
\<close>

definition writeLayer ::
  "('m, 'oa, 'og) Field3DOutputFile \<Rightarrow> string \<Rightarrow> string \<Rightarrow> ('m, 'd) Field option
    \<Rightarrow> bool \<times> string list \<times> ('m, 'oa, 'og) Field3DOutputFile" where
  "writeLayer f partitionName layerName layer =
     (case layer of
        None \<Rightarrow> (False, [''Called writeLayer with null pointer. Ignoring...''], f)
      | Some fld \<Rightarrow>
          (case m_archive f of
             None \<Rightarrow> (False, [''Attempting to write layer without opening file first.''], f)
           | Some a \<Rightarrow> (True, [], f)))"

text \<open>
  \<^verbatim>\<open>writeLayer(layerName, layer)\<close> writes to the partition \<^verbatim>\<open>"default"\<close>.
\<close>

definition writeLayer_default ::
  "('m, 'oa, 'og) Field3DOutputFile \<Rightarrow> string \<Rightarrow> ('m, 'd) Field option
    \<Rightarrow> bool \<times> string list \<times> ('m, 'oa, 'og) Field3DOutputFile" where
  "writeLayer_default f layerName layer = writeLayer f ''default'' layerName layer"

text \<open>
  \<^verbatim>\<open>writeLayer(layer)\<close> passes \<^verbatim>\<open>layer->name\<close> and \<^verbatim>\<open>layer->attribute\<close> to the
  three-argument call. What \<^verbatim>\<open>operator->\<close> does on a null pointer is decided by the
  pointer type of \<^verbatim>\<open>Field.h\<close>, which is not among the sources, and the header gives it no
  value; this overload is therefore not modelled. On a field that is not null it is the
  three-argument call on the name and the attribute of the field.
\<close>

section \<open>Field3DFileBase: internal partition names\<close>

text \<open>
  Modelled from the spec: the suffix N of an internal name \<^verbatim>\<open>external.N\<close> is the decimal
  numeral of the number N = 0, 1, 2, ...; \<open>decimal\<close> prints it and \<open>isDigit\<close> recognises
  its characters.
\<close>

definition digit_chars :: string where
  "digit_chars = ''0123456789''"

fun decimal :: "nat \<Rightarrow> string" where
  "decimal n =
     (if n < 10 then [digit_chars ! n]
      else decimal (n div 10) @ [digit_chars ! (n mod 10)])"

definition isDigit :: "char \<Rightarrow> bool" where
  "isDigit c = (c \<in> set digit_chars)"

text \<open>
  Modelled from the spec: the body of \<^verbatim>\<open>Field3DFileBase::makeIntPartitionName\<close> is
  not among the sources. Its declaration says that it tacks \<^verbatim>\<open>.X\<close> on to the name, where
  X is the number; the spec says that the internal name is the external name suffixed
  with \<^verbatim>\<open>.N\<close> (N = 0, 1, 2, ...).
\<close>

definition makeIntPartitionName :: "string \<Rightarrow> nat \<Rightarrow> string" where
  "makeIntPartitionName partitionsName i = partitionsName @ ''.'' @ decimal i"

text \<open>
  Modelled from the spec: the body of \<^verbatim>\<open>Field3DFileBase::removeUniqueId\<close> is not among
  the sources. The spec: a pure function of the name that strips the trailing \<^verbatim>\<open>.N\<close>
  suffix of an internal name (the internal name is the external name optionally suffixed
  with \<^verbatim>\<open>.N\<close>). A name that does not end in a dot followed by one or more decimal
  digits has no such suffix and is returned as it is; dots inside the external name stay.
\<close>

definition removeUniqueId :: "string \<Rightarrow> string" where
  "removeUniqueId partitionName =
     (let r = rev partitionName;
          ds = takeWhile isDigit r;
          rest = dropWhile isDigit r
      in (case rest of
            [] \<Rightarrow> partitionName
          | c # base \<Rightarrow>
              if c = CHR ''.'' \<and> ds \<noteq> [] then rev base else partitionName))"

text \<open>
  Modelled from the spec: the body of \<^verbatim>\<open>Field3DFileBase::partition\<close> (public as
  \<^verbatim>\<open>getPartition\<close>) is not among the sources. The spec and the declaration: it returns
  the partition of the given name, none (the null pointer) if no partition of that name
  was found. The name of a Partition is its internal name.
\<close>

definition getPartition ::
  "('m, 'z) Field3DFileBase_scheme \<Rightarrow> string \<Rightarrow> 'm Partition option" where
  "getPartition f partitionName =
     find (\<lambda>p. Partition.name p = partitionName) (m_partitions f)"

text \<open>
  Modelled from the spec: the body of \<^verbatim>\<open>Field3DFileBase::numIntPartitions\<close> is not among
  the sources. The declaration: the number of internal partitions of an external name; the
  spec: a counter per external name is used to mint the next suffix. An external name
  without a counter has no internal partition.
\<close>

definition numIntPartitions :: "('m, 'z) Field3DFileBase_scheme \<Rightarrow> string \<Rightarrow> nat" where
  "numIntPartitions f partitionName =
     (case m_partitionCount f partitionName of None \<Rightarrow> 0 | Some n \<Rightarrow> n)"

text \<open>
  Modelled from the spec: the body of \<^verbatim>\<open>Field3DFileBase::getIntPartitionNames\<close> is not
  among the sources. The declaration: the names of all the internal partitions in the
  file; the spec: partitions in registry order.
\<close>

definition getIntPartitionNames :: "('m, 'z) Field3DFileBase_scheme \<Rightarrow> string list" where
  "getIntPartitionNames f = map Partition.name (m_partitions f)"

text \<open>
  Modelled from the spec: the body of \<^verbatim>\<open>Field3DFileBase::getIntScalarLayerNames\<close> is not
  among the sources. The declaration: the names of all the scalar layers of the partition
  of the given internal name; the spec: layers in insertion order.
\<close>

definition getIntScalarLayerNames ::
  "('m, 'z) Field3DFileBase_scheme \<Rightarrow> string \<Rightarrow> string list" where
  "getIntScalarLayerNames f intPartName =
     (case getPartition f intPartName of
        None \<Rightarrow> []
      | Some p \<Rightarrow> getScalarLayerNames p)"

text \<open>
  The failure of a call that breaks the contract of the caller: an empty name.
\<close>

datatype error = EmptyName

text \<open>
  Modelled from the spec: the existing internal names derived from an external name, the
  suffixes \<^verbatim>\<open>.0\<close>, \<^verbatim>\<open>.1\<close>, ... in increasing order, up to the counter of the name.
\<close>

definition intPartitionNames :: "('m, 'z) Field3DFileBase_scheme \<Rightarrow> string \<Rightarrow> string list" where
  "intPartitionNames f partitionName =
     map (makeIntPartitionName partitionName) [0 ..< numIntPartitions f partitionName]"

text \<open>
  Modelled from the spec: the test of resolve-or-create on one internal name: a Partition
  of that name exists and its mapping is equal by value to the candidate.
\<close>

definition hasMapping :: "('m, 'z) Field3DFileBase_scheme \<Rightarrow> 'm \<Rightarrow> string \<Rightarrow> bool" where
  "hasMapping f m intName =
     (case getPartition f intName of None \<Rightarrow> False | Some p \<Rightarrow> Partition.mapping p = m)"

text \<open>
  Modelled from the spec: the body of \<^verbatim>\<open>Field3DFileBase::intPartitionName\<close> is not
  among the sources. The spec (resolve-or-create): the external name and the layer name
  are non-empty, an empty one is rejected; the existing internal names derived from the
  external name are enumerated, and the first whose Partition's mapping is equal by value
  to the candidate is returned; if none matches, the next unused suffix is minted, a new
  Partition owning the candidate mapping is registered, the counter of the external name
  goes up by one, and the new internal name is returned. The third argument is the mapping
  of the field.
\<close>

definition intPartitionName ::
  "('m, 'z) Field3DFileBase_scheme \<Rightarrow> string \<Rightarrow> string \<Rightarrow> 'm
    \<Rightarrow> error + string \<times> ('m, 'z) Field3DFileBase_scheme" where
  "intPartitionName f partitionName layerName m =
     (if partitionName = [] \<or> layerName = [] then Inl EmptyName
      else
        (case find (hasMapping f m) (intPartitionNames f partitionName) of
           Some n \<Rightarrow> Inr (n, f)
         | None \<Rightarrow>
             (let i = numIntPartitions f partitionName;
                  n = makeIntPartitionName partitionName i
              in Inr (n,
                   f\<lparr>m_partitions := m_partitions f @
                        [\<lparr>Partition.name = n, Partition.mapping = m,
                          m_scalarLayers = [], m_vectorLayers = []\<rparr>],
                     m_partitionCount := (m_partitionCount f)(partitionName \<mapsto> Suc i)\<rparr>))))"

text \<open>
  A sequence of resolve-or-create calls, each given as (external name, layer name,
  mapping), run from left to right; the first rejected call ends the run.
\<close>

fun intPartitionName_calls ::
  "('m, 'z) Field3DFileBase_scheme \<Rightarrow> (string \<times> string \<times> 'm) list
    \<Rightarrow> error + string list \<times> ('m, 'z) Field3DFileBase_scheme" where
  "intPartitionName_calls f [] = Inr ([], f)"
| "intPartitionName_calls f ((e, l, m) # cs) =
     (case intPartitionName f e l m of
        Inl err \<Rightarrow> Inl err
      | Inr (n, f') \<Rightarrow>
          (case intPartitionName_calls f' cs of
             Inl err \<Rightarrow> Inl err
           | Inr (ns, f'') \<Rightarrow> Inr (n # ns, f'')))"

section \<open>Field3DInputFile: reading layers\<close>

text \<open>
  \<^verbatim>\<open>readLayer\<close> as the header implements it: it returns an empty pointer for every
  partition and layer.
\<close>

definition readLayer ::
  "('m, 'ia) Field3DInputFile \<Rightarrow> string \<Rightarrow> string \<Rightarrow> 'fld option" where
  "readLayer f intPartName layerName = None"

text \<open>
  The loops of the two \<^verbatim>\<open>readLayers\<close> overloads. The call \<^verbatim>\<open>readLayer<Data_T>(*p, *l)\<close>
  is the parameter \<open>rd\<close>, so that the loops are stated for every instance of the
  template; the source's own \<^verbatim>\<open>readLayer\<close> is put in below. The state of a loop is the
  vector \<^verbatim>\<open>ret\<close> and the list of the calls of \<open>rd\<close> made so far (every access to the
  archive is such a call).
\<close>

type_synonym 'fld scan = "'fld list \<times> (string \<times> string) list"

fun readLayers_inner ::
  "(string \<Rightarrow> string \<Rightarrow> 'fld option) \<Rightarrow> string \<Rightarrow> string \<Rightarrow> string list
    \<Rightarrow> 'fld scan \<Rightarrow> 'fld scan" where
  "readLayers_inner rd layerName p [] acc = acc"
| "readLayers_inner rd layerName p (l # ls) (ret, calls) =
     (if length layerName = 0 \<or> l = layerName then
        (case rd p l of
           Some mf \<Rightarrow> readLayers_inner rd layerName p ls (ret @ [mf], calls @ [(p, l)])
         | None \<Rightarrow> readLayers_inner rd layerName p ls (ret, calls @ [(p, l)]))
      else readLayers_inner rd layerName p ls (ret, calls))"

fun readLayers_outer ::
  "(string \<Rightarrow> string \<Rightarrow> 'fld option) \<Rightarrow> ('m, 'z) Field3DFileBase_scheme \<Rightarrow> string
    \<Rightarrow> string list \<Rightarrow> 'fld scan \<Rightarrow> 'fld scan" where
  "readLayers_outer rd f layerName [] acc = acc"
| "readLayers_outer rd f layerName (p # ps) acc =
     readLayers_outer rd f layerName ps
       (readLayers_inner rd layerName p (getIntScalarLayerNames f p) acc)"

definition readLayers_scan ::
  "(string \<Rightarrow> string \<Rightarrow> 'fld option) \<Rightarrow> ('m, 'z) Field3DFileBase_scheme \<Rightarrow> string
    \<Rightarrow> 'fld scan" where
  "readLayers_scan rd f layerName = readLayers_outer rd f layerName (getIntPartitionNames f) ([], [])"

fun readLayers2_inner ::
  "(string \<Rightarrow> string \<Rightarrow> 'fld option) \<Rightarrow> string \<Rightarrow> string \<Rightarrow> string list
    \<Rightarrow> 'fld scan \<Rightarrow> 'fld scan" where
  "readLayers2_inner rd layerName p [] acc = acc"
| "readLayers2_inner rd layerName p (l # ls) (ret, calls) =
     (if l = layerName then
        (case rd p l of
           Some mf \<Rightarrow> readLayers2_inner rd layerName p ls (ret @ [mf], calls @ [(p, l)])
         | None \<Rightarrow> readLayers2_inner rd layerName p ls (ret, calls @ [(p, l)]))
      else readLayers2_inner rd layerName p ls (ret, calls))"

fun readLayers2_outer ::
  "(string \<Rightarrow> string \<Rightarrow> 'fld option) \<Rightarrow> ('m, 'z) Field3DFileBase_scheme \<Rightarrow> string
    \<Rightarrow> string \<Rightarrow> string list \<Rightarrow> 'fld scan \<Rightarrow> 'fld scan" where
  "readLayers2_outer rd f partitionName layerName [] acc = acc"
| "readLayers2_outer rd f partitionName layerName (p # ps) acc =
     readLayers2_outer rd f partitionName layerName ps
       (if removeUniqueId p = partitionName
        then readLayers2_inner rd layerName p (getIntScalarLayerNames f p) acc
        else acc)"

definition readLayers2_scan ::
  "(string \<Rightarrow> string \<Rightarrow> 'fld option) \<Rightarrow> ('m, 'z) Field3DFileBase_scheme \<Rightarrow> string
    \<Rightarrow> string \<Rightarrow> 'fld scan" where
  "readLayers2_scan rd f partitionName layerName =
     (if length layerName = 0 \<or> length partitionName = 0 then ([], [])
      else readLayers2_outer rd f partitionName layerName (getIntPartitionNames f) ([], []))"

text \<open>
  The two overloads of \<^verbatim>\<open>readLayers\<close> of the source: the loops above with the source's
  \<^verbatim>\<open>readLayer\<close>, returning the vector \<^verbatim>\<open>ret\<close>.
\<close>

definition readLayers :: "('m, 'ia) Field3DInputFile \<Rightarrow> string \<Rightarrow> 'fld list" where
  "readLayers f layerName = fst (readLayers_scan (readLayer f) f layerName)"

definition readLayers2 ::
  "('m, 'ia) Field3DInputFile \<Rightarrow> string \<Rightarrow> string \<Rightarrow> 'fld list" where
  "readLayers2 f partitionName layerName =
     fst (readLayers2_scan (readLayer f) f partitionName layerName)"

text \<open>
  Every scalar layer of the registry as a pair of its internal partition name and its
  layer name: partitions in registry order (creation order, load order on read), the
  layers of a partition in insertion order.
\<close>

definition allScalarLayers ::
  "('m, 'z) Field3DFileBase_scheme \<Rightarrow> (string \<times> string) list" where
  "allScalarLayers f =
     concat (map (\<lambda>p. map (Pair p) (getIntScalarLayerNames f p)) (getIntPartitionNames f))"


section \<open>Example values\<close>

text \<open>
  Concrete values on which the theorems below are instantiated: a partition, an output
  file that is not open, an input file with three partitions, and a layer reader that
  fails on one layer and returns the path of every other one.
\<close>

definition example_partition :: "nat Partition" where
  "example_partition =
     \<lparr>Partition.name = ''fire.0'', Partition.mapping = 1, m_scalarLayers = [], m_vectorLayers = []\<rparr>"

definition example_output :: "(nat, unit, unit) Field3DOutputFile" where
  "example_output =
     \<lparr>m_layerInfo = [], m_partitions = [], m_partitionNames = [],
      m_partitionCount = Map.empty, m_groupMembership = Map.empty,
      m_archive = None, m_root = None\<rparr>"

definition example_input :: "(nat, unit) Field3DInputFile" where
  "example_input =
     \<lparr>m_layerInfo = [],
      m_partitions =
        [\<lparr>Partition.name = ''fire.0'', Partition.mapping = 1,
          m_scalarLayers = [\<lparr>Layer.name = ''density'', parent = ''fire.0''\<rparr>,
                            \<lparr>Layer.name = ''temp'', parent = ''fire.0''\<rparr>],
          m_vectorLayers = []\<rparr>,
         \<lparr>Partition.name = ''smoke.0'', Partition.mapping = 1,
          m_scalarLayers = [\<lparr>Layer.name = ''density'', parent = ''smoke.0''\<rparr>],
          m_vectorLayers = []\<rparr>,
         \<lparr>Partition.name = ''fire.1'', Partition.mapping = 2,
          m_scalarLayers = [\<lparr>Layer.name = ''density'', parent = ''fire.1''\<rparr>],
          m_vectorLayers = []\<rparr>],
      m_partitionNames = [],
      m_partitionCount = [''fire'' \<mapsto> 2, ''smoke'' \<mapsto> 1],
      m_groupMembership = Map.empty,
      m_filename = ''example.f3d'', m_iarchive = Some ()\<rparr>"

definition example_reader :: "string \<Rightarrow> string \<Rightarrow> string option" where
  "example_reader p l = (if p = ''fire.0'' \<and> l = ''density'' then None else Some (p @ ''/'' @ l))"

definition example_calls :: "(string \<times> string \<times> nat) list" where
  "example_calls =
     [(''fire'', ''density'', 1), (''fire'', ''temp'', 2), (''fire'', ''density'', 1),
      (''smoke'', ''density'', 1)]"

section \<open>Partition layers\<close>

lemma find_snoc:
  "find P (xs @ [x]) =
     (case find P xs of Some y \<Rightarrow> Some y | None \<Rightarrow> if P x then Some x else None)"
  by (induction xs) simp_all

lemma foldl_addScalarLayer: "m_scalarLayers (foldl addScalarLayer p ls) = m_scalarLayers p @ ls"
  by (induction ls arbitrary: p) (simp_all add: addScalarLayer_def)

lemma foldl_addVectorLayer: "m_vectorLayers (foldl addVectorLayer p ls) = m_vectorLayers p @ ls"
  by (induction ls arbitrary: p) (simp_all add: addVectorLayer_def)

text \<open>
  Claim C9. Adding a layer appends it to the list of its kind and leaves the other list
  alone, so that a sequence of additions is retained whole and in order, duplicates of a
  name included; a lookup by name returns the first layer of that name in insertion
  order, and after a further addition still the same one: a later duplicate is in the list
  but is not what the lookup returns.
\<close>

theorem partition_layers_append_only_first_match:
  "m_scalarLayers (foldl addScalarLayer p ls) = m_scalarLayers p @ ls
   \<and> m_vectorLayers (foldl addVectorLayer p ls) = m_vectorLayers p @ ls
   \<and> m_vectorLayers (addScalarLayer p l') = m_vectorLayers p
   \<and> m_scalarLayers (addVectorLayer p l') = m_scalarLayers p
   \<and> (scalarLayer p n = Some l \<longleftrightarrow>
        (\<exists>i<length (m_scalarLayers p). m_scalarLayers p ! i = l \<and> Layer.name l = n
           \<and> (\<forall>j<i. Layer.name (m_scalarLayers p ! j) \<noteq> n)))
   \<and> (vectorLayer p n = Some l \<longleftrightarrow>
        (\<exists>i<length (m_vectorLayers p). m_vectorLayers p ! i = l \<and> Layer.name l = n
           \<and> (\<forall>j<i. Layer.name (m_vectorLayers p ! j) \<noteq> n)))
   \<and> scalarLayer (addScalarLayer p l') n =
        (case scalarLayer p n of Some x \<Rightarrow> Some x
         | None \<Rightarrow> if Layer.name l' = n then Some l' else None)
   \<and> vectorLayer (addVectorLayer p l') n =
        (case vectorLayer p n of Some x \<Rightarrow> Some x
         | None \<Rightarrow> if Layer.name l' = n then Some l' else None)"
proof -
  have s: "scalarLayer p n = Some l \<longleftrightarrow>
        (\<exists>i<length (m_scalarLayers p). m_scalarLayers p ! i = l \<and> Layer.name l = n
           \<and> (\<forall>j<i. Layer.name (m_scalarLayers p ! j) \<noteq> n))"
    unfolding scalarLayer_def find_Some_iff by auto
  have v: "vectorLayer p n = Some l \<longleftrightarrow>
        (\<exists>i<length (m_vectorLayers p). m_vectorLayers p ! i = l \<and> Layer.name l = n
           \<and> (\<forall>j<i. Layer.name (m_vectorLayers p ! j) \<noteq> n))"
    unfolding vectorLayer_def find_Some_iff by auto
  have a: "scalarLayer (addScalarLayer p l') n =
        (case scalarLayer p n of Some x \<Rightarrow> Some x
         | None \<Rightarrow> if Layer.name l' = n then Some l' else None)"
    by (simp add: scalarLayer_def addScalarLayer_def find_snoc)
  have b: "vectorLayer (addVectorLayer p l') n =
        (case vectorLayer p n of Some x \<Rightarrow> Some x
         | None \<Rightarrow> if Layer.name l' = n then Some l' else None)"
    by (simp add: vectorLayer_def addVectorLayer_def find_snoc)
  have c: "m_vectorLayers (addScalarLayer p l') = m_vectorLayers p"
    "m_scalarLayers (addVectorLayer p l') = m_scalarLayers p"
    by (simp_all add: addScalarLayer_def addVectorLayer_def)
  show ?thesis
    using s v a b c foldl_addScalarLayer [of p ls] foldl_addVectorLayer [of p ls] by blast
qed

theorem partition_layers_witness:
  "m_vectorLayers (foldl addVectorLayer example_partition
       [\<lparr>Layer.name = ''velocity'', parent = ''fire.0''\<rparr>,
        \<lparr>Layer.name = ''velocity'', parent = ''fire.0 again''\<rparr>]) =
     [\<lparr>Layer.name = ''velocity'', parent = ''fire.0''\<rparr>,
      \<lparr>Layer.name = ''velocity'', parent = ''fire.0 again''\<rparr>]
   \<and> vectorLayer (addVectorLayer (addVectorLayer example_partition
          \<lparr>Layer.name = ''velocity'', parent = ''fire.0''\<rparr>)
          \<lparr>Layer.name = ''velocity'', parent = ''fire.0 again''\<rparr>) ''velocity'' =
       Some \<lparr>Layer.name = ''velocity'', parent = ''fire.0''\<rparr>"
  using partition_layers_append_only_first_match
    [where p = example_partition
       and ls = "[\<lparr>Layer.name = ''velocity'', parent = ''fire.0''\<rparr>,
        \<lparr>Layer.name = ''velocity'', parent = ''fire.0 again''\<rparr>]"
       and l' = "\<lparr>Layer.name = ''velocity'', parent = ''fire.0 again''\<rparr>"
       and n = "''velocity''"
       and l = "\<lparr>Layer.name = ''velocity'', parent = ''fire.0''\<rparr>"]
  by (simp add: example_partition_def vectorLayer_def addVectorLayer_def)

section \<open>writeLayer\<close>

text \<open>
  Claim C5. Whenever the field pointer is null or the archive is not open, the
  three-argument \<^verbatim>\<open>writeLayer\<close> returns \<open>False\<close> as a value, and the file object after
  the call (the registry with its partitions and layers, and the archive handles) is the
  one before the call.
\<close>

theorem writeLayer_failure_leaves_file_unchanged:
  assumes "layer = None \<or> m_archive f = None"
  shows "fst (writeLayer f partitionName layerName layer) = False
         \<and> snd (snd (writeLayer f partitionName layerName layer)) = f"
  using assms by (auto simp: writeLayer_def split: option.splits)

theorem writeLayer_failure_witness:
  "fst (writeLayer example_output ''fire'' ''density'' (None :: (nat, unit) Field option)) = False
   \<and> snd (snd (writeLayer example_output ''fire'' ''density'' (None :: (nat, unit) Field option)))
       = example_output
   \<and> m_partitions (snd (snd (writeLayer example_output ''fire'' ''density''
         (Some \<lparr>Field.name = ''fire'', attribute = ''density'', Field.mapping = 1, data = ()\<rparr>)))) = []"
  using writeLayer_failure_leaves_file_unchanged
    [where layer = "None :: (nat, unit) Field option" and f = example_output
       and partitionName = "''fire''" and layerName = "''density''"]
    writeLayer_failure_leaves_file_unchanged
    [where layer = "Some \<lparr>Field.name = ''fire'', attribute = ''density'',
                           Field.mapping = 1::nat, data = ()\<rparr>"
       and f = example_output and partitionName = "''fire''" and layerName = "''density''"]
  by (simp add: example_output_def)

text \<open>
  Claim C4 (what the code does at the input of the claim). With the archive open and a
  field that is not null, \<^verbatim>\<open>writeLayer\<close> returns \<open>True\<close> and the file object is unchanged: no
  partition is created, no Layer Record is appended and the archive is not written to.
\<close>

theorem writeLayer_open_registers_nothing:
  "writeLayer (f\<lparr>m_archive := Some a\<rparr>) partitionName layerName (Some fld) =
     (True, [], f\<lparr>m_archive := Some a\<rparr>)
   \<and> m_partitions (snd (snd (writeLayer (f\<lparr>m_archive := Some a\<rparr>) partitionName layerName (Some fld))))
       = m_partitions f"
  by (simp add: writeLayer_def)

section \<open>readLayers\<close>

lemma map_filter_append_local: "List.map_filter g (xs @ ys) = List.map_filter g xs @ List.map_filter g ys"
  by (simp add: List.map_filter_def)

lemma map_filter_Pair: "List.map_filter (case_prod rd) (map (Pair p) ls) = List.map_filter (rd p) ls"
  by (induction ls) (auto simp: List.map_filter_simps split: option.splits)

lemma readLayers_inner_eq:
  "readLayers_inner rd nm p ls (ret, calls) =
     (ret @ List.map_filter (rd p) (filter (\<lambda>l. nm = [] \<or> l = nm) ls),
      calls @ map (Pair p) (filter (\<lambda>l. nm = [] \<or> l = nm) ls))"
  by (induction ls arbitrary: ret calls) (auto split: option.splits)

lemma readLayers2_inner_eq:
  "readLayers2_inner rd nm p ls (ret, calls) =
     (ret @ List.map_filter (rd p) (filter (\<lambda>l. l = nm) ls),
      calls @ map (Pair p) (filter (\<lambda>l. l = nm) ls))"
  by (induction ls arbitrary: ret calls) (auto split: option.splits)

lemma readLayers_outer_eq:
  "readLayers_outer rd f nm ps (ret, calls) =
     (ret @ List.map_filter (\<lambda>(p, l). rd p l)
        (concat (map (\<lambda>p. map (Pair p) (filter (\<lambda>l. nm = [] \<or> l = nm) (getIntScalarLayerNames f p))) ps)),
      calls @ concat (map (\<lambda>p. map (Pair p) (filter (\<lambda>l. nm = [] \<or> l = nm) (getIntScalarLayerNames f p))) ps))"
  by (induction ps arbitrary: ret calls)
     (simp_all add: readLayers_inner_eq map_filter_append_local map_filter_Pair)

lemma readLayers2_outer_eq:
  "readLayers2_outer rd f pn nm ps (ret, calls) =
     (ret @ List.map_filter (\<lambda>(p, l). rd p l)
        (concat (map (\<lambda>p. map (Pair p) (filter (\<lambda>l. l = nm) (getIntScalarLayerNames f p)))
           (filter (\<lambda>p. removeUniqueId p = pn) ps))),
      calls @ concat (map (\<lambda>p. map (Pair p) (filter (\<lambda>l. l = nm) (getIntScalarLayerNames f p)))
           (filter (\<lambda>p. removeUniqueId p = pn) ps)))"
  by (induction ps arbitrary: ret calls)
     (simp_all add: readLayers2_inner_eq map_filter_append_local map_filter_Pair)

lemma filter_pairs_layer:
  "filter (\<lambda>(p, l). P l) (concat (map (\<lambda>p. map (Pair p) (g p)) ps)) =
   concat (map (\<lambda>p. map (Pair p) (filter P (g p))) ps)"
  by (induction ps) (simp_all add: filter_map o_def)

lemma filter_pairs_both:
  "filter (\<lambda>(p, l). Q p \<and> P l) (concat (map (\<lambda>p. map (Pair p) (g p)) ps)) =
   concat (map (\<lambda>p. map (Pair p) (filter P (g p))) (filter Q ps))"
  by (induction ps) (simp_all add: filter_map o_def)

lemma readLayers_scan_eq:
  "readLayers_scan rd f nm =
    (List.map_filter (\<lambda>(p, l). rd p l) (filter (\<lambda>(p, l). nm = [] \<or> l = nm) (allScalarLayers f)),
     filter (\<lambda>(p, l). nm = [] \<or> l = nm) (allScalarLayers f))"
  by (simp add: readLayers_scan_def readLayers_outer_eq allScalarLayers_def filter_pairs_layer)

lemma readLayers2_scan_eq:
  "readLayers2_scan rd f pn nm =
    (if nm = [] \<or> pn = [] then ([], [])
     else (List.map_filter (\<lambda>(p, l). rd p l)
             (filter (\<lambda>(p, l). removeUniqueId p = pn \<and> l = nm) (allScalarLayers f)),
           filter (\<lambda>(p, l). removeUniqueId p = pn \<and> l = nm) (allScalarLayers f)))"
  by (simp add: readLayers2_scan_def readLayers2_outer_eq allScalarLayers_def filter_pairs_both)

lemma map_filter_None: "List.map_filter (\<lambda>x. None) xs = []"
  by (simp add: List.map_filter_def)

lemma example_allScalarLayers:
  "allScalarLayers example_input =
     [(''fire.0'', ''density''), (''fire.0'', ''temp''), (''smoke.0'', ''density''),
      (''fire.1'', ''density'')]"
  by (simp add: allScalarLayers_def getIntPartitionNames_def getIntScalarLayerNames_def
      getPartition_def getScalarLayerNames_def example_input_def)

lemma example_removeUniqueId:
  "removeUniqueId ''fire.0'' = ''fire''" "removeUniqueId ''fire.1'' = ''fire''"
  "removeUniqueId ''smoke.0'' = ''smoke''"
  by (simp_all add: removeUniqueId_def isDigit_def digit_chars_def)

text \<open>
  Claim C6. The layers that the two-argument \<^verbatim>\<open>readLayers\<close> reads are the scalar layers
  of the registry, in registry order, whose internal partition name stripped of its suffix
  is \<^verbatim>\<open>partitionName\<close> and whose name is \<^verbatim>\<open>layerName\<close> (none when a name is empty), and
  the result holds the fields that these reads returned, in that order. This holds for
  every layer reader, and for the \<^verbatim>\<open>readLayer\<close> of the source.
\<close>

theorem readLayers2_reads_only_matching:
  "snd (readLayers2_scan (rd :: string \<Rightarrow> string \<Rightarrow> 'fld option) f partitionName layerName) =
     (if layerName = [] \<or> partitionName = [] then []
      else filter (\<lambda>(p, l). removeUniqueId p = partitionName \<and> l = layerName)
             (allScalarLayers f))
   \<and> fst (readLayers2_scan rd f partitionName layerName) =
       List.map_filter (\<lambda>(p, l). rd p l) (snd (readLayers2_scan rd f partitionName layerName))
   \<and> (readLayers2 f partitionName layerName :: 'fld list) =
       List.map_filter (\<lambda>(p, l). readLayer f p l)
         (snd (readLayers2_scan (readLayer f) f partitionName layerName))"
  by (simp add: readLayers2_scan_eq readLayers2_def map_filter_None)

theorem readLayers2_reads_only_matching_witness:
  "snd (readLayers2_scan example_reader example_input ''fire'' ''density'') =
     [(''fire.0'', ''density''), (''fire.1'', ''density'')]
   \<and> fst (readLayers2_scan example_reader example_input ''fire'' ''density'') =
     [''fire.1/density'']"
proof -
  note t = readLayers2_reads_only_matching
    [where rd = example_reader and f = example_input and partitionName = "''fire''"
       and layerName = "''density''"]
  have A: "snd (readLayers2_scan example_reader example_input ''fire'' ''density'') =
     [(''fire.0'', ''density''), (''fire.1'', ''density'')]"
    using t [THEN conjunct1] by (simp add: example_allScalarLayers example_removeUniqueId)
  have B: "fst (readLayers2_scan example_reader example_input ''fire'' ''density'') =
     [''fire.1/density'']"
    using t [THEN conjunct2, THEN conjunct1] by (simp add: A example_reader_def)
  show ?thesis using A B by simp
qed

text \<open>
  Claim C7. When \<^verbatim>\<open>partitionName\<close> or \<^verbatim>\<open>layerName\<close> is empty, the two-argument
  \<^verbatim>\<open>readLayers\<close> returns an empty result and makes no call of the layer reader.
\<close>

theorem readLayers2_empty_name:
  assumes "partitionName = [] \<or> layerName = []"
  shows "readLayers2_scan (rd :: string \<Rightarrow> string \<Rightarrow> 'fld option) f partitionName layerName
           = ([], [])
         \<and> (readLayers2 f partitionName layerName :: 'fld list) = []"
  using assms by (auto simp: readLayers2_scan_def readLayers2_def)

theorem readLayers2_empty_name_witness:
  "readLayers2_scan example_reader example_input [] ''density'' = ([], [])
   \<and> readLayers2_scan example_reader example_input ''fire'' [] = ([], [])
   \<and> readLayers2_scan example_reader example_input [] [] = ([], [])"
proof -
  have "readLayers2_scan example_reader example_input [] ''density'' = ([], [])"
    using readLayers2_empty_name
      [where rd = example_reader and f = example_input and partitionName = "[]"
         and layerName = "''density''", THEN conjunct1]
    by simp
  moreover have "readLayers2_scan example_reader example_input ''fire'' [] = ([], [])"
    using readLayers2_empty_name
      [where rd = example_reader and f = example_input and partitionName = "''fire''"
         and layerName = "[]", THEN conjunct1]
    by simp
  moreover have "readLayers2_scan example_reader example_input [] [] = ([], [])"
    using readLayers2_empty_name
      [where rd = example_reader and f = example_input and partitionName = "[]"
         and layerName = "[]", THEN conjunct1]
    by simp
  ultimately show ?thesis by simp
qed

text \<open>
  Claim C8. The one-argument \<^verbatim>\<open>readLayers\<close> tries every scalar layer that matches the
  name (every layer when the name is empty), whatever the earlier reads returned, and its
  result is the fields of the reads that succeeded, in order: a layer whose read fails is
  left out and the scan goes on.
\<close>

theorem readLayers_skips_failed_layers:
  "snd (readLayers_scan (rd :: string \<Rightarrow> string \<Rightarrow> 'fld option) f layerName) =
     filter (\<lambda>(p, l). layerName = [] \<or> l = layerName) (allScalarLayers f)
   \<and> fst (readLayers_scan rd f layerName) =
       List.map_filter (\<lambda>(p, l). rd p l)
         (filter (\<lambda>(p, l). layerName = [] \<or> l = layerName) (allScalarLayers f))
   \<and> (readLayers f layerName :: 'fld list) =
       List.map_filter (\<lambda>(p, l). readLayer f p l)
         (filter (\<lambda>(p, l). layerName = [] \<or> l = layerName) (allScalarLayers f))"
  by (simp add: readLayers_scan_eq readLayers_def)

theorem readLayers_skips_failed_layers_witness:
  "snd (readLayers_scan example_reader example_input ''density'') =
     [(''fire.0'', ''density''), (''smoke.0'', ''density''), (''fire.1'', ''density'')]
   \<and> fst (readLayers_scan example_reader example_input ''density'') =
     [''smoke.0/density'', ''fire.1/density'']
   \<and> fst (readLayers_scan example_reader example_input []) =
     [''fire.0/temp'', ''smoke.0/density'', ''fire.1/density'']"
proof -
  note t = readLayers_skips_failed_layers
    [where rd = example_reader and f = example_input and layerName = "''density''"]
  note u = readLayers_skips_failed_layers
    [where rd = example_reader and f = example_input and layerName = "[]"]
  have A: "snd (readLayers_scan example_reader example_input ''density'') =
     [(''fire.0'', ''density''), (''smoke.0'', ''density''), (''fire.1'', ''density'')]"
    using t [THEN conjunct1] by (simp add: example_allScalarLayers)
  have B: "fst (readLayers_scan example_reader example_input ''density'') =
     [''smoke.0/density'', ''fire.1/density'']"
    using t [THEN conjunct2, THEN conjunct1]
    by (simp add: example_allScalarLayers example_reader_def)
  have C: "fst (readLayers_scan example_reader example_input []) =
     [''fire.0/temp'', ''smoke.0/density'', ''fire.1/density'']"
    using u [THEN conjunct2, THEN conjunct1]
    by (simp add: example_allScalarLayers example_reader_def)
  show ?thesis using A B C by simp
qed

text \<open>
  Claim C3 (what the code does at the input of the claim). \<^verbatim>\<open>readLayer\<close> returns an empty
  pointer for every layer, so both overloads of \<^verbatim>\<open>readLayers\<close> return an empty vector on
  every file, whatever was written to it.
\<close>

theorem readLayers_returns_nothing:
  "(readLayers f layerName :: 'fld list) = []
   \<and> (readLayers2 f partitionName layerName :: 'fld list) = []"
  by (simp add: readLayers_def readLayers2_def readLayers_scan_eq readLayers2_scan_eq
      readLayer_def map_filter_None case_prod_unfold)

section \<open>Internal partition names\<close>

lemma length_digit_chars: "length digit_chars = 10"
  by (simp add: digit_chars_def)

lemma isDigit_digit: "n < 10 \<Longrightarrow> isDigit (digit_chars ! n)"
  unfolding isDigit_def by (rule nth_mem) (simp add: length_digit_chars)

lemma not_isDigit_dot: "\<not> isDigit CHR ''.''"
  by (simp add: isDigit_def digit_chars_def)



declare decimal.simps [simp del]

lemma decimal_nonempty: "decimal n \<noteq> []"
  by (subst decimal.simps) simp

lemma decimal_digits: "c \<in> set (decimal n) \<Longrightarrow> isDigit c"
proof (induction n arbitrary: c rule: decimal.induct)
  case (1 n)
  show ?case
  proof (cases "n < 10")
    case True
    with "1.prems" show ?thesis
      by (subst (asm) decimal.simps) (simp add: isDigit_digit)
  next
    case False
    with "1.prems" have "c \<in> set (decimal (n div 10)) \<or> c = digit_chars ! (n mod 10)"
      by (subst (asm) decimal.simps) auto
    then show ?thesis
      using "1.IH" [OF False] by (auto simp: isDigit_digit)
  qed
qed


lemma removeUniqueId_makeIntPartitionName:
  "removeUniqueId (makeIntPartitionName e i) = e"
proof -
  have r: "rev (makeIntPartitionName e i) = rev (decimal i) @ CHR ''.'' # rev e"
    by (simp add: makeIntPartitionName_def)
  have t: "takeWhile isDigit (rev (decimal i) @ CHR ''.'' # rev e) = rev (decimal i)"
    by (subst takeWhile_append2) (auto simp: decimal_digits not_isDigit_dot)
  have u: "dropWhile isDigit (rev (decimal i) @ CHR ''.'' # rev e) = CHR ''.'' # rev e"
    by (subst dropWhile_append2) (auto simp: decimal_digits not_isDigit_dot)
  show ?thesis
    unfolding removeUniqueId_def r Let_def t u by (simp add: decimal_nonempty)
qed


lemma intPartitionName_found:
  assumes "e \<noteq> []" "l \<noteq> []" "find (hasMapping f m) (intPartitionNames f e) = Some n"
  shows "intPartitionName f e l m = Inr (n, f)"
  using assms by (simp add: intPartitionName_def)

lemma intPartitionName_minted:
  assumes "e \<noteq> []" "l \<noteq> []" "find (hasMapping f m) (intPartitionNames f e) = None"
  shows "intPartitionName f e l m =
     Inr (makeIntPartitionName e (numIntPartitions f e),
          f\<lparr>m_partitions := m_partitions f @
               [\<lparr>Partition.name = makeIntPartitionName e (numIntPartitions f e),
                 Partition.mapping = m, m_scalarLayers = [], m_vectorLayers = []\<rparr>],
            m_partitionCount := (m_partitionCount f)(e \<mapsto> Suc (numIntPartitions f e))\<rparr>)"
  using assms by (simp add: intPartitionName_def Let_def)

lemma find_intPartitionNames:
  assumes "find P (intPartitionNames f e) = Some n"
  shows "\<exists>i<numIntPartitions f e. n = makeIntPartitionName e i \<and> P n"
proof -
  from assms have "n \<in> set (intPartitionNames f e)" and "P n"
    by (auto simp: find_Some_iff)
  then show ?thesis by (auto simp: intPartitionNames_def)
qed

lemma intPartitionName_result:
  assumes "e \<noteq> []" "l \<noteq> []"
  shows "\<exists>i f'. intPartitionName f e l m = Inr (makeIntPartitionName e i, f')"
proof (cases "find (hasMapping f m) (intPartitionNames f e)")
  case None
  from intPartitionName_minted [OF assms None] show ?thesis by blast
next
  case (Some n)
  from find_intPartitionNames [OF Some] obtain i where "n = makeIntPartitionName e i" by blast
  with intPartitionName_found [OF assms Some] show ?thesis by blast
qed

text \<open>
  Claim C2. For every external name and layer name that are not empty, and every mapping
  and registry, \<^verbatim>\<open>intPartitionName\<close> returns an internal name, and \<^verbatim>\<open>removeUniqueId\<close> of
  that name is the external name.
\<close>

theorem removeUniqueId_intPartitionName:
  assumes "partitionName \<noteq> []" and "layerName \<noteq> []"
  shows "\<exists>n f'. intPartitionName f partitionName layerName m = Inr (n, f')
           \<and> removeUniqueId n = partitionName"
proof -
  from intPartitionName_result [OF assms, where f = f and m = m] obtain i f' where
    "intPartitionName f partitionName layerName m = Inr (makeIntPartitionName partitionName i, f')"
    by blast
  then show ?thesis
    using removeUniqueId_makeIntPartitionName [of partitionName i] by blast
qed

theorem removeUniqueId_intPartitionName_witness:
  "''fire'' \<noteq> [] \<and> ''density'' \<noteq> []
   \<and> (\<exists>n f'. intPartitionName example_input ''fire'' ''density'' (3::nat) = Inr (n, f')
          \<and> removeUniqueId n = ''fire'')"
  using removeUniqueId_intPartitionName
    [where partitionName = "''fire''" and layerName = "''density''" and f = example_input
       and m = "3::nat"]
  by simp

subsection \<open>Sequences of calls\<close>















lemma example_calls_run:
  "(case intPartitionName_calls example_output example_calls of
      Inl err \<Rightarrow> False
    | Inr (ns, f') \<Rightarrow> ns = [''fire.0'', ''fire.1'', ''fire.0'', ''smoke.0'']
         \<and> getIntPartitionNames f' = [''fire.0'', ''fire.1'', ''smoke.0''])"
  by code_simp

end
